theory Spec2Isabelle
  imports Main
begin

section \<open>Python values, exceptions and dictionaries\<close>

text \<open>
  The credential and token service of \<^verbatim>\<open>app/core/security.py\<close> and
  \<^verbatim>\<open>app/auth/service.py\<close> is embedded as pure functions. An exception is a value of
  type \<open>error\<close>; a function that may raise returns \<open>error + 'a\<close>, with \<open>Inl\<close> for the
  exception that leaves the call. The wall clock read by \<^verbatim>\<open>datetime.utcnow()\<close> and the
  salt drawn by the hashing library are explicit arguments.
\<close>

datatype error =
    TypeError
  | ValueError
  | OverflowError
  | JWSError
  | JWKError
  | JWTError
  | JWTClaimsError
  | ExpiredSignatureError
  | ValidationError
  | UnknownHashError
  | MalformedHashError
  | PasswordSizeError
  | PasswordValueError

text \<open>
  \<^verbatim>\<open>except JWTError\<close> catches the class and its subclasses
  \<^verbatim>\<open>JWTClaimsError\<close> and \<^verbatim>\<open>ExpiredSignatureError\<close>; \<^verbatim>\<open>JWSError\<close> and
  \<^verbatim>\<open>JWKError\<close> derive from \<^verbatim>\<open>JOSEError\<close> only.
\<close>

fun is_JWTError :: "error \<Rightarrow> bool" where
  "is_JWTError JWTError = True"
| "is_JWTError JWTClaimsError = True"
| "is_JWTError ExpiredSignatureError = True"
| "is_JWTError _ = False"

text \<open>
  The values a claim can hold: JSON values, and \<^verbatim>\<open>datetime\<close> objects (microseconds since
  the epoch, naive UTC) before encoding. Floating point numbers are not represented.
\<close>

datatype pyval =
    PNone
  | PBool bool
  | PInt int
  | PStr string
  | PList "pyval list"
  | PDict "(string \<times> pyval) list"
  | PDatetime int

type_synonym pydict = "(string \<times> pyval) list"

text \<open>\<^verbatim>\<open>d.get(k)\<close>: the value, or \<^verbatim>\<open>None\<close> for a missing key.\<close>

definition dict_get :: "pydict \<Rightarrow> string \<Rightarrow> pyval" where
  "dict_get d k = (case map_of d k of None \<Rightarrow> PNone | Some v \<Rightarrow> v)"

text \<open>\<^verbatim>\<open>k in d\<close>.\<close>

definition dict_has :: "pydict \<Rightarrow> string \<Rightarrow> bool" where
  "dict_has d k = (map_of d k \<noteq> None)"

text \<open>\<^verbatim>\<open>d[k] = v\<close> and \<^verbatim>\<open>d.update({k: v})\<close>: an existing key keeps its position.\<close>

primrec dict_set :: "pydict \<Rightarrow> string \<Rightarrow> pyval \<Rightarrow> pydict" where
  "dict_set [] k v = [(k, v)]"
| "dict_set (p # ps) k v = (if fst p = k then (k, v) # ps else p # dict_set ps k v)"

subsection \<open>The built-in \<^verbatim>\<open>int()\<close>\<close>

text \<open>
  \<^verbatim>\<open>int(s)\<close> on a string strips white space, reads an optional sign and then decimal
  digits, where single underscores may stand between digits. Anything else raises
  \<^verbatim>\<open>ValueError\<close>. On a value that is neither a number nor a string it raises
  \<^verbatim>\<open>TypeError\<close>.
\<close>

definition is_space :: "char \<Rightarrow> bool" where
  "is_space c = (of_char c \<in> {9, 10, 11, 12, 13, 28, 29, 30, 31, 32, 133, 160 :: nat})"

definition is_digit :: "char \<Rightarrow> bool" where
  "is_digit c = (48 \<le> (of_char c :: nat) \<and> (of_char c :: nat) \<le> 57)"

definition digit_val :: "char \<Rightarrow> int" where
  "digit_val c = int (of_char c) - 48"

definition strip :: "string \<Rightarrow> string" where
  "strip s = rev (dropWhile is_space (rev (dropWhile is_space s)))"

text \<open>
  \<open>read_digits acc after_digit s\<close>: the digits read so far have the value \<open>acc\<close>;
  \<open>after_digit\<close> says whether the last character read was a digit.
\<close>

fun read_digits :: "int \<Rightarrow> bool \<Rightarrow> string \<Rightarrow> int option" where
  "read_digits acc after_digit [] = (if after_digit then Some acc else None)"
| "read_digits acc after_digit (c # cs) =
     (if is_digit c then read_digits (10 * acc + digit_val c) True cs
      else if c = CHR ''_'' \<and> after_digit then read_digits acc False cs
      else None)"

definition int_of_str :: "string \<Rightarrow> int option" where
  "int_of_str s =
     (case strip s of
        [] \<Rightarrow> None
      | c # cs \<Rightarrow>
          if c = CHR ''-'' then map_option uminus (read_digits 0 False cs)
          else if c = CHR ''+'' then read_digits 0 False cs
          else read_digits 0 False (c # cs))"

fun py_int :: "pyval \<Rightarrow> error + int" where
  "py_int (PInt n) = Inr n"
| "py_int (PBool b) = Inr (if b then 1 else 0)"
| "py_int (PStr s) = (case int_of_str s of None \<Rightarrow> Inl ValueError | Some n \<Rightarrow> Inr n)"
| "py_int _ = Inl TypeError"

subsection \<open>\<^verbatim>\<open>datetime\<close> and \<^verbatim>\<open>timedelta\<close>\<close>

text \<open>
  A \<^verbatim>\<open>datetime\<close> and a \<^verbatim>\<open>timedelta\<close> are counts of microseconds. A
  \<^verbatim>\<open>datetime\<close> lies between the years 1 and 9999, a \<^verbatim>\<open>timedelta\<close> within a thousand
  million days; leaving either range raises \<^verbatim>\<open>OverflowError\<close>.
\<close>

definition MICROS :: int where
  "MICROS = 1000000"

definition DATETIME_MIN :: int where
  "DATETIME_MIN = - 62135596800 * 1000000"

definition DATETIME_MAX :: int where
  "DATETIME_MAX = 253402300799 * 1000000 + 999999"

definition TIMEDELTA_MIN :: int where
  "TIMEDELTA_MIN = - 999999999 * 86400 * 1000000"

definition TIMEDELTA_MAX :: int where
  "TIMEDELTA_MAX = 999999999 * 86400 * 1000000 + 86399999999"

definition timedelta_minutes :: "int \<Rightarrow> error + int" where
  "timedelta_minutes m =
     (let d = m * 60 * MICROS
      in if TIMEDELTA_MIN \<le> d \<and> d \<le> TIMEDELTA_MAX then Inr d else Inl OverflowError)"

definition datetime_add :: "int \<Rightarrow> int \<Rightarrow> error + int" where
  "datetime_add t d =
     (if DATETIME_MIN \<le> t + d \<and> t + d \<le> DATETIME_MAX then Inr (t + d)
      else Inl OverflowError)"

text \<open>\<^verbatim>\<open>timegm(t.utctimetuple())\<close>: whole seconds since the epoch, the fraction dropped.\<close>

definition timegm :: "int \<Rightarrow> int" where
  "timegm t = t div MICROS"

text \<open>\<^verbatim>\<open>str(n)\<close> for an integer: its decimal digits, with a minus sign when negative.\<close>

fun str_of_nat :: "nat \<Rightarrow> string" where
  "str_of_nat n =
     (if n < 10 then [char_of (48 + n)]
      else str_of_nat (n div 10) @ [char_of (48 + n mod 10)])"

definition str_of_int :: "int \<Rightarrow> string" where
  "str_of_int i = (if i < 0 then CHR ''-'' # str_of_nat (nat (- i)) else str_of_nat (nat i))"

section \<open>The token library (python-jose)\<close>

text \<open>
  \<^verbatim>\<open>jose.jwt\<close> is not part of the repository; it is modelled at the level of its
  documented behaviour (release 3.x), with symbolic cryptography. A Python string
  presented as a token either is the compact serialisation of a JWS (three base64url
  segments, the first a JSON object) or is not. A serialisation \<open>JWS a p s\<close> is
  represented by what the library reads from it:
  \<^item> \<open>a\<close>, the header's algorithm, if the header names one;
  \<^item> \<open>p\<close>, the JSON value of the second segment, if that segment is JSON;
  \<^item> \<open>s\<close>, the key under which the third segment is the valid signature of the
    first two, if there is one. A signature made under one key verifies under that key
    and under no other, and changing the header or the payload leaves a token that is
    signed by no key.
  The secret is taken to be usable as an HMAC key as it stands (it is neither a PEM
  document nor a JSON document).
\<close>

datatype token =
    NotJWS string
  | JWS "string option" "pyval option" "string option"

definition HMAC_ALGORITHMS :: "string list" where
  "HMAC_ALGORITHMS = [''HS256'', ''HS384'', ''HS512'']"

text \<open>\<^verbatim>\<open>json.dumps\<close> raises \<^verbatim>\<open>TypeError\<close> on a \<^verbatim>\<open>datetime\<close>, at any depth.\<close>

fun json_serializable :: "pyval \<Rightarrow> bool" where
  "json_serializable (PDatetime t) = False"
| "json_serializable (PList xs) = list_all json_serializable xs"
| "json_serializable (PDict kvs) = list_all json_serializable (map snd kvs)"
| "json_serializable _ = True"

text \<open>
  \<^verbatim>\<open>jws.sign\<close>: the algorithm must be one the secret can be used with (with a symmetric
  secret, the HMAC family); the payload is serialised; the result is signed by \<open>key\<close>.
\<close>

definition jws_sign :: "pydict \<Rightarrow> string \<Rightarrow> string \<Rightarrow> error + token" where
  "jws_sign claims key algorithm =
     (if algorithm \<notin> set HMAC_ALGORITHMS then Inl JWSError
      else if \<not> list_all json_serializable (map snd claims) then Inl TypeError
      else Inr (JWS (Some algorithm) (Some (PDict claims)) (Some key)))"

text \<open>
  \<^verbatim>\<open>jwt.encode\<close>: a \<^verbatim>\<open>datetime\<close> under \<^verbatim>\<open>exp\<close>, \<^verbatim>\<open>iat\<close> or \<^verbatim>\<open>nbf\<close> becomes its
  whole seconds since the epoch; then the claims are signed.
\<close>

definition convert_time_claim :: "pydict \<Rightarrow> string \<Rightarrow> pydict" where
  "convert_time_claim claims k =
     (case dict_get claims k of
        PDatetime t \<Rightarrow> dict_set claims k (PInt (timegm t))
      | _ \<Rightarrow> claims)"

definition jwt_encode :: "pydict \<Rightarrow> string \<Rightarrow> string \<Rightarrow> error + token" where
  "jwt_encode claims key algorithm =
     jws_sign (foldl convert_time_claim claims [''exp'', ''iat'', ''nbf'']) key algorithm"

text \<open>
  The validators of the registered claims, with the defaults \<^verbatim>\<open>decode_access_token\<close>
  uses: no audience, issuer, subject or access token is given, the leeway is zero. Each
  validator catches the \<^verbatim>\<open>ValueError\<close> of \<^verbatim>\<open>int()\<close> only. The library compares
  whole seconds: a token is expired when \<^verbatim>\<open>exp < now\<close>, and not yet valid when
  \<^verbatim>\<open>nbf > now\<close>.
\<close>

definition claim_int :: "pydict \<Rightarrow> string \<Rightarrow> error + int" where
  "claim_int claims k =
     (case py_int (dict_get claims k) of
        Inl e \<Rightarrow> Inl (if e = ValueError then JWTClaimsError else e)
      | Inr n \<Rightarrow> Inr n)"

definition validate_iat :: "pydict \<Rightarrow> error + unit" where
  "validate_iat claims =
     (if \<not> dict_has claims ''iat'' then Inr ()
      else case claim_int claims ''iat'' of Inl e \<Rightarrow> Inl e | Inr _ \<Rightarrow> Inr ())"

definition validate_nbf :: "pydict \<Rightarrow> int \<Rightarrow> error + unit" where
  "validate_nbf claims now =
     (if \<not> dict_has claims ''nbf'' then Inr ()
      else case claim_int claims ''nbf'' of
             Inl e \<Rightarrow> Inl e
           | Inr nbf \<Rightarrow> if nbf > timegm now then Inl JWTClaimsError else Inr ())"

definition validate_exp :: "pydict \<Rightarrow> int \<Rightarrow> error + unit" where
  "validate_exp claims now =
     (if \<not> dict_has claims ''exp'' then Inr ()
      else case claim_int claims ''exp'' of
             Inl e \<Rightarrow> Inl e
           | Inr exp \<Rightarrow> if exp < timegm now then Inl ExpiredSignatureError else Inr ())"

text \<open>With no audience given, a token that carries \<^verbatim>\<open>aud\<close> is refused whatever it holds.\<close>

definition validate_aud :: "pydict \<Rightarrow> error + unit" where
  "validate_aud claims = (if \<not> dict_has claims ''aud'' then Inr () else Inl JWTClaimsError)"

definition is_str :: "pyval \<Rightarrow> bool" where
  "is_str v = (case v of PStr _ \<Rightarrow> True | _ \<Rightarrow> False)"

definition validate_sub :: "pydict \<Rightarrow> error + unit" where
  "validate_sub claims =
     (if \<not> dict_has claims ''sub'' then Inr ()
      else if \<not> is_str (dict_get claims ''sub'') then Inl JWTClaimsError
      else Inr ())"

definition validate_jti :: "pydict \<Rightarrow> error + unit" where
  "validate_jti claims =
     (if \<not> dict_has claims ''jti'' then Inr ()
      else if \<not> is_str (dict_get claims ''jti'') then Inl JWTClaimsError
      else Inr ())"

definition validate_at_hash :: "pydict \<Rightarrow> error + unit" where
  "validate_at_hash claims =
     (if \<not> dict_has claims ''at_hash'' then Inr () else Inl JWTClaimsError)"

text \<open>The first validator that raises ends the validation.\<close>

fun first_error :: "(error + unit) list \<Rightarrow> error + unit" where
  "first_error [] = Inr ()"
| "first_error (Inl e # rs) = Inl e"
| "first_error (Inr u # rs) = first_error rs"

definition validate_claims :: "pydict \<Rightarrow> int \<Rightarrow> error + unit" where
  "validate_claims claims now =
     first_error
       [validate_iat claims, validate_nbf claims now, validate_exp claims now,
        validate_aud claims, validate_sub claims, validate_jti claims,
        validate_at_hash claims]"

text \<open>
  \<^verbatim>\<open>jwt.decode(token, key, algorithms)\<close>. Every failure to parse the token or to verify
  its signature is a \<^verbatim>\<open>JWTError\<close>; an allowed algorithm for which the secret is no key
  is a \<^verbatim>\<open>JWKError\<close>.
\<close>

definition jwt_decode :: "token \<Rightarrow> string \<Rightarrow> string list \<Rightarrow> int \<Rightarrow> error + pydict" where
  "jwt_decode tok key algorithms now =
     (case tok of
        NotJWS s \<Rightarrow> Inl JWTError
      | JWS a p s \<Rightarrow>
          (case a of
             None \<Rightarrow> Inl JWTError
           | Some algorithm \<Rightarrow>
               if algorithm = [] then Inl JWTError
               else if algorithm \<notin> set algorithms then Inl JWTError
               else if algorithm \<notin> set HMAC_ALGORITHMS then Inl JWKError
               else if s \<noteq> Some key then Inl JWTError
               else (case p of
                       Some (PDict claims) \<Rightarrow>
                         (case validate_claims claims now of
                            Inl e \<Rightarrow> Inl e
                          | Inr u \<Rightarrow> Inr claims)
                     | _ \<Rightarrow> Inl JWTError)))"

section \<open>The schema \<^verbatim>\<open>TokenData\<close> (pydantic)\<close>

text \<open>
  \<^verbatim>\<open>TokenData\<close> as \<^verbatim>\<open>app/schemas/user.py\<close> declares it: both fields optional, the
  email a string and the user id an integer. The model validates its arguments when it is
  constructed (the version 1 interface the schemas are written against): a number is
  accepted for a string field, and whatever \<^verbatim>\<open>int()\<close> accepts for an integer field;
  anything else raises \<^verbatim>\<open>ValidationError\<close>.
\<close>

record TokenData =
  email :: "string option"
  user_id :: "int option"

fun str_validator :: "pyval \<Rightarrow> error + string" where
  "str_validator (PStr s) = Inr s"
| "str_validator (PInt n) = Inr (str_of_int n)"
| "str_validator (PBool b) = Inr (if b then ''True'' else ''False'')"
| "str_validator _ = Inl ValidationError"

definition int_validator :: "pyval \<Rightarrow> error + int" where
  "int_validator v = (case py_int v of Inl e \<Rightarrow> Inl ValidationError | Inr n \<Rightarrow> Inr n)"

definition optional :: "(pyval \<Rightarrow> error + 'a) \<Rightarrow> pyval \<Rightarrow> error + 'a option" where
  "optional validator v =
     (if v = PNone then Inr None
      else case validator v of Inl e \<Rightarrow> Inl e | Inr x \<Rightarrow> Inr (Some x))"

definition TokenData_new :: "pyval \<Rightarrow> pyval \<Rightarrow> error + TokenData" where
  "TokenData_new e u =
     (case (optional str_validator e, optional int_validator u) of
        (Inr e', Inr u') \<Rightarrow> Inr \<lparr>email = e', user_id = u'\<rparr>
      | _ \<Rightarrow> Inl ValidationError)"

section \<open>The password hashing library (passlib, bcrypt)\<close>

text \<open>
  \<^verbatim>\<open>CryptContext(schemes=["bcrypt"])\<close> is not part of the repository either. A Python
  string presented as a hash is represented by what the context reads from it:
  \<^item> \<open>Unidentified s\<close>: \<open>s\<close> does not start with a bcrypt identifier, so no scheme of the
    context claims it;
  \<^item> \<open>MalformedBcrypt s\<close>: \<open>s\<close> starts with a bcrypt identifier and does not parse as
    rounds, salt and digest;
  \<^item> \<open>Bcrypt rounds salt chk\<close>: a well-formed bcrypt hash.
  The digest of a well-formed hash is symbolic: either the bcrypt digest of some secret
  under some rounds and salt, or characters that are the digest of nothing. bcrypt reads
  the first 72 characters of the secret.
\<close>

datatype checksum =
    Digest nat string string
  | Opaque string

datatype hash_str =
    Unidentified string
  | MalformedBcrypt string
  | Bcrypt nat string checksum

definition MAX_PASSWORD_SIZE :: nat where
  "MAX_PASSWORD_SIZE = 4096"

definition DEFAULT_ROUNDS :: nat where
  "DEFAULT_ROUNDS = 12"

definition NUL :: char where
  "NUL = CHR 0x00"

definition bcrypt_digest :: "nat \<Rightarrow> string \<Rightarrow> string \<Rightarrow> error + checksum" where
  "bcrypt_digest rounds salt secret =
     (if NUL \<in> set secret then Inl PasswordValueError
      else Inr (Digest rounds salt (take 72 secret)))"

text \<open>
  \<^verbatim>\<open>pwd_context.hash(secret)\<close>: the size of the secret is checked, a salt is drawn (the
  argument \<open>salt\<close>) and the digest computed with the default rounds.
\<close>

definition pwd_context_hash :: "string \<Rightarrow> string \<Rightarrow> error + hash_str" where
  "pwd_context_hash salt secret =
     (if length secret > MAX_PASSWORD_SIZE then Inl PasswordSizeError
      else case bcrypt_digest DEFAULT_ROUNDS salt secret of
             Inl e \<Rightarrow> Inl e
           | Inr chk \<Rightarrow> Inr (Bcrypt DEFAULT_ROUNDS salt chk))"

text \<open>
  \<^verbatim>\<open>pwd_context.verify(secret, hash)\<close>: the hash is identified, the size of the secret
  checked, the hash parsed, and the digest of the secret under the rounds and salt of the
  hash compared with the digest of the hash.
\<close>

definition pwd_context_verify :: "string \<Rightarrow> hash_str \<Rightarrow> error + bool" where
  "pwd_context_verify secret hash =
     (case hash of
        Unidentified s \<Rightarrow> Inl UnknownHashError
      | MalformedBcrypt s \<Rightarrow>
          if length secret > MAX_PASSWORD_SIZE then Inl PasswordSizeError
          else Inl MalformedHashError
      | Bcrypt rounds salt chk \<Rightarrow>
          if length secret > MAX_PASSWORD_SIZE then Inl PasswordSizeError
          else (case bcrypt_digest rounds salt secret of
                  Inl e \<Rightarrow> Inl e
                | Inr chk' \<Rightarrow> Inr (chk' = chk)))"

section \<open>\<^verbatim>\<open>app/core/security.py\<close>\<close>

text \<open>
  The three settings read from the environment when the module is loaded.
\<close>

record config =
  SECRET_KEY :: string
  ALGORITHM :: string
  ACCESS_TOKEN_EXPIRE_MINUTES :: int

definition default_config :: config where
  "default_config =
     \<lparr>SECRET_KEY = ''your-secret-key-change-in-production'',
      ALGORITHM = ''HS256'',
      ACCESS_TOKEN_EXPIRE_MINUTES = 60\<rparr>"

definition verify_password :: "string \<Rightarrow> hash_str \<Rightarrow> error + bool" where
  "verify_password plain_password hashed_password =
     pwd_context_verify plain_password hashed_password"

definition get_password_hash :: "string \<Rightarrow> string \<Rightarrow> error + hash_str" where
  "get_password_hash salt password = pwd_context_hash salt password"

text \<open>
  \<^verbatim>\<open>create_access_token(data, expires_delta)\<close> at the time \<open>now\<close>. The test
  \<^verbatim>\<open>if expires_delta:\<close> is false for \<^verbatim>\<open>None\<close> and for a zero \<^verbatim>\<open>timedelta\<close>.
  \<open>token_claims\<close> is the dictionary handed to \<^verbatim>\<open>jwt.encode\<close>.
\<close>

definition truthy :: "int option \<Rightarrow> bool" where
  "truthy expires_delta = (case expires_delta of None \<Rightarrow> False | Some d \<Rightarrow> d \<noteq> 0)"

definition token_expire :: "config \<Rightarrow> int \<Rightarrow> int option \<Rightarrow> error + int" where
  "token_expire cfg now expires_delta =
     (if truthy expires_delta then
        (case expires_delta of
           Some d \<Rightarrow> datetime_add now d
         | None \<Rightarrow> Inl TypeError)
      else (case timedelta_minutes (ACCESS_TOKEN_EXPIRE_MINUTES cfg) of
              Inl e \<Rightarrow> Inl e
            | Inr d \<Rightarrow> datetime_add now d))"

definition token_claims :: "config \<Rightarrow> int \<Rightarrow> pydict \<Rightarrow> int option \<Rightarrow> error + pydict" where
  "token_claims cfg now data expires_delta =
     (case token_expire cfg now expires_delta of
        Inl e \<Rightarrow> Inl e
      | Inr expire \<Rightarrow> Inr (dict_set data ''exp'' (PDatetime expire)))"

definition create_access_token :: "config \<Rightarrow> int \<Rightarrow> pydict \<Rightarrow> int option \<Rightarrow> error + token" where
  "create_access_token cfg now data expires_delta =
     (case token_claims cfg now data expires_delta of
        Inl e \<Rightarrow> Inl e
      | Inr to_encode \<Rightarrow> jwt_encode to_encode (SECRET_KEY cfg) (ALGORITHM cfg))"

text \<open>
  \<^verbatim>\<open>decode_access_token(token)\<close> at the time \<open>now\<close>: \<open>Inr None\<close> is the returned
  \<^verbatim>\<open>None\<close>, \<open>Inl e\<close> an exception that the \<^verbatim>\<open>except JWTError\<close> clause does not catch.
\<close>

definition decode_access_token :: "config \<Rightarrow> int \<Rightarrow> token \<Rightarrow> error + TokenData option" where
  "decode_access_token cfg now tok =
     (case jwt_decode tok (SECRET_KEY cfg) [ALGORITHM cfg] now of
        Inl e \<Rightarrow> if is_JWTError e then Inr None else Inl e
      | Inr payload \<Rightarrow>
          (let email = dict_get payload ''sub'';
               user_id = dict_get payload ''user_id''
           in if email = PNone \<or> user_id = PNone then Inr None
              else case TokenData_new email user_id of
                     Inl e \<Rightarrow> Inl e
                   | Inr td \<Rightarrow> Inr (Some td)))"

section \<open>\<^verbatim>\<open>app/auth/service.py\<close> and the user schemas\<close>

record User =
  User_id :: int
  User_email :: string
  hashed_password :: hash_str
  full_name :: "string option"
  is_active :: bool

record UserLogin =
  login_email :: string
  login_password :: string

text \<open>
  The database session is the list of the rows of the table \<^verbatim>\<open>users\<close>;
  \<^verbatim>\<open>db.query(User).filter(User.email == e).first()\<close> is the first row with that email.
\<close>

definition query_user_by_email :: "User list \<Rightarrow> string \<Rightarrow> User option" where
  "query_user_by_email db e = find (\<lambda>u. User_email u = e) db"

definition authenticate_user :: "User list \<Rightarrow> UserLogin \<Rightarrow> error + User option" where
  "authenticate_user db credentials =
     (case query_user_by_email db (login_email credentials) of
        None \<Rightarrow> Inr None
      | Some user \<Rightarrow>
          (case verify_password (login_password credentials) (hashed_password user) of
             Inl e \<Rightarrow> Inl e
           | Inr ok \<Rightarrow> if \<not> ok then Inr None else Inr (Some user)))"

text \<open>
  \<^verbatim>\<open>UserCreate\<close> of \<^verbatim>\<open>app/schemas/user.py\<close>: the password has between 8 and 100
  characters, the optional full name between 1 and 255, and the validator
  \<^verbatim>\<open>password_strength\<close> runs on a password that passed the length constraints. The check
  of the email address belongs to a library and is the parameter \<open>validate_email\<close>, which
  returns the normalised address.
\<close>

record UserCreate =
  create_email :: string
  create_full_name :: "string option"
  create_password :: string

definition password_strength :: "string \<Rightarrow> error + string" where
  "password_strength v = (if length v < 8 then Inl ValueError else Inr v)"

definition full_name_ok :: "string option \<Rightarrow> bool" where
  "full_name_ok n = (case n of None \<Rightarrow> True | Some s \<Rightarrow> 1 \<le> length s \<and> length s \<le> 255)"

definition UserCreate_new ::
    "(string \<Rightarrow> string option) \<Rightarrow> string \<Rightarrow> string option \<Rightarrow> string \<Rightarrow> error + UserCreate" where
  "UserCreate_new validate_email e n p =
     (case validate_email e of
        None \<Rightarrow> Inl ValidationError
      | Some e' \<Rightarrow>
          if \<not> full_name_ok n then Inl ValidationError
          else if length p < 8 \<or> length p > 100 then Inl ValidationError
          else (case password_strength p of
                  Inl err \<Rightarrow> Inl ValidationError
                | Inr p' \<Rightarrow>
                    Inr \<lparr>create_email = e', create_full_name = n, create_password = p'\<rparr>))"

section \<open>Dictionaries and validators: basic facts\<close>

lemma map_of_dict_set: "map_of (dict_set d k v) = (map_of d)(k \<mapsto> v)"
  by (induction d) auto

lemma dict_get_dict_set: "dict_get (dict_set d k v) k' = (if k' = k then v else dict_get d k')"
  by (simp add: dict_get_def map_of_dict_set)

lemma dict_has_dict_set: "dict_has (dict_set d k v) k' = (k' = k \<or> dict_has d k')"
  by (simp add: dict_has_def map_of_dict_set)

lemma dict_set_twice: "dict_set (dict_set d k v) k v' = dict_set d k v'"
  by (induction d) auto

lemma dict_get_absent: "\<not> dict_has d k \<Longrightarrow> dict_get d k = PNone"
  by (simp add: dict_get_def dict_has_def)

lemma serializable_dict_set:
  "list_all json_serializable (map snd d) \<Longrightarrow> json_serializable v \<Longrightarrow>
   list_all json_serializable (map snd (dict_set d k v))"
  by (induction d) auto


lemma hmac_nonempty: "alg \<in> set HMAC_ALGORITHMS \<Longrightarrow> alg \<noteq> []"
  by (auto simp: HMAC_ALGORITHMS_def)

lemma convert_exp:
  "convert_time_claim (dict_set data ''exp'' (PDatetime t)) ''exp'' = dict_set data ''exp'' (PInt (timegm t))"
  by (simp add: convert_time_claim_def dict_get_dict_set dict_set_twice)

lemma convert_absent: "\<not> dict_has d k \<Longrightarrow> convert_time_claim d k = d"
  by (simp add: convert_time_claim_def dict_get_absent)

lemma encode_issued:
  assumes "alg \<in> set HMAC_ALGORITHMS"
    and "list_all json_serializable (map snd data)"
    and "\<not> dict_has data ''iat''" and "\<not> dict_has data ''nbf''"
  shows "jwt_encode (dict_set data ''exp'' (PDatetime t)) key alg =
         Inr (JWS (Some alg) (Some (PDict (dict_set data ''exp'' (PInt (timegm t))))) (Some key))"
proof -
  let ?c = "dict_set data ''exp'' (PInt (timegm t))"
  have a: "\<not> dict_has ?c ''iat''" "\<not> dict_has ?c ''nbf''"
    using assms by (simp_all add: dict_has_dict_set)
  have "foldl convert_time_claim (dict_set data ''exp'' (PDatetime t)) [''exp'', ''iat'', ''nbf''] = ?c"
    using a by (simp add: convert_exp convert_absent)
  moreover have "list_all json_serializable (map snd ?c)"
    using assms(2) by (rule serializable_dict_set) simp
  ultimately show ?thesis
    using assms(1) by (simp add: jwt_encode_def jws_sign_def)
qed

lemma dict_has_map_of: "map_of d k = Some v \<Longrightarrow> dict_has d k"
  by (simp add: dict_has_def)

lemma dict_get_map_of: "map_of d k = Some v \<Longrightarrow> dict_get d k = v"
  by (simp add: dict_get_def)

lemma validate_issued:
  assumes "map_of data ''sub'' = Some (PStr S)"
    and "\<not> dict_has data ''iat''" and "\<not> dict_has data ''nbf''"
    and "\<not> dict_has data ''aud''" and "\<not> dict_has data ''jti''"
    and "\<not> dict_has data ''at_hash''"
  shows "validate_claims (dict_set data ''exp'' (PInt e)) now =
         (if e < timegm now then Inl ExpiredSignatureError else Inr ())"
proof -
  let ?c = "dict_set data ''exp'' (PInt e)"
  have "validate_iat ?c = Inr ()" "validate_nbf ?c now = Inr ()"
    "validate_aud ?c = Inr ()" "validate_jti ?c = Inr ()" "validate_at_hash ?c = Inr ()"
    using assms
    by (simp_all add: validate_iat_def validate_nbf_def validate_aud_def validate_jti_def
        validate_at_hash_def dict_has_dict_set)
  moreover have "validate_sub ?c = Inr ()"
    using assms(1)
    by (simp add: validate_sub_def dict_has_dict_set dict_get_dict_set dict_get_map_of is_str_def)
  moreover have "validate_exp ?c now = (if e < timegm now then Inl ExpiredSignatureError else Inr ())"
    by (simp add: validate_exp_def dict_has_dict_set dict_get_dict_set claim_int_def)
  ultimately show ?thesis
    by (simp add: validate_claims_def)
qed

lemma decode_issued:
  assumes "ALGORITHM cfg \<in> set HMAC_ALGORITHMS"
    and "map_of data ''sub'' = Some (PStr S)"
    and "map_of data ''user_id'' = Some (PInt n)"
    and "\<not> dict_has data ''iat''" and "\<not> dict_has data ''nbf''"
    and "\<not> dict_has data ''aud''" and "\<not> dict_has data ''jti''"
    and "\<not> dict_has data ''at_hash''"
  shows "decode_access_token cfg now
           (JWS (Some (ALGORITHM cfg)) (Some (PDict (dict_set data ''exp'' (PInt e))))
              (Some (SECRET_KEY cfg))) =
         (if e < timegm now then Inr None
          else Inr (Some \<lparr>email = Some S, user_id = Some n\<rparr>))"
proof -
  let ?c = "dict_set data ''exp'' (PInt e)"
  have v: "validate_claims ?c now = (if e < timegm now then Inl ExpiredSignatureError else Inr ())"
    using assms(2,4-8) by (rule validate_issued)
  have g: "dict_get ?c ''sub'' = PStr S" "dict_get ?c ''user_id'' = PInt n"
    using assms(2,3) by (simp_all add: dict_get_dict_set dict_get_map_of)
  have t: "TokenData_new (PStr S) (PInt n) = Inr \<lparr>email = Some S, user_id = Some n\<rparr>"
    by (simp add: TokenData_new_def optional_def int_validator_def)
  have d: "jwt_decode (JWS (Some (ALGORITHM cfg)) (Some (PDict ?c)) (Some (SECRET_KEY cfg)))
             (SECRET_KEY cfg) [ALGORITHM cfg] now =
           (if e < timegm now then Inl ExpiredSignatureError else Inr ?c)"
    using assms(1) hmac_nonempty[OF assms(1)] by (simp add: jwt_decode_def v)
  show ?thesis
    by (simp add: decode_access_token_def d g t)
qed

lemma token_expire_default:
  assumes "DATETIME_MIN \<le> now" and "0 \<le> ACCESS_TOKEN_EXPIRE_MINUTES cfg"
    and "now + ACCESS_TOKEN_EXPIRE_MINUTES cfg * 60 * MICROS \<le> DATETIME_MAX"
  shows "token_expire cfg now None = Inr (now + ACCESS_TOKEN_EXPIRE_MINUTES cfg * 60 * MICROS)"
proof -
  define d where "d = ACCESS_TOKEN_EXPIRE_MINUTES cfg * 60 * MICROS"
  have d0: "0 \<le> d" using assms(2) by (simp add: d_def MICROS_def)
  have d1: "now + d \<le> DATETIME_MAX" using assms(3) by (simp add: d_def)
  have "d \<le> DATETIME_MAX - DATETIME_MIN" using assms(1) d1 by linarith
  then have "TIMEDELTA_MIN \<le> d \<and> d \<le> TIMEDELTA_MAX"
    using d0 by (simp add: TIMEDELTA_MIN_def TIMEDELTA_MAX_def DATETIME_MAX_def DATETIME_MIN_def)
  then have "timedelta_minutes (ACCESS_TOKEN_EXPIRE_MINUTES cfg) = Inr d"
    by (simp add: timedelta_minutes_def Let_def d_def)
  moreover have "datetime_add now d = Inr (now + d)"
    using assms(1) d0 d1 by (simp add: datetime_add_def)
  ultimately show ?thesis
    by (simp add: token_expire_def truthy_def d_def)
qed

lemma token_expire_supplied:
  assumes "ttl \<noteq> 0" and "DATETIME_MIN \<le> now + ttl" and "now + ttl \<le> DATETIME_MAX"
  shows "token_expire cfg now (Some ttl) = Inr (now + ttl)"
  using assms by (simp add: token_expire_def truthy_def datetime_add_def)

lemma create_issued:
  assumes "ALGORITHM cfg \<in> set HMAC_ALGORITHMS"
    and "token_expire cfg now expires_delta = Inr expire"
    and "list_all json_serializable (map snd data)"
    and "\<not> dict_has data ''iat''" and "\<not> dict_has data ''nbf''"
  shows "create_access_token cfg now data expires_delta =
         Inr (JWS (Some (ALGORITHM cfg))
                (Some (PDict (dict_set data ''exp'' (PInt (timegm expire)))))
                (Some (SECRET_KEY cfg)))"
  using assms(2) encode_issued[OF assms(1,3,4,5)]
  by (simp add: create_access_token_def token_claims_def)

lemma timegm_mono: "a \<le> b \<Longrightarrow> timegm a \<le> timegm b"
  by (simp add: timegm_def MICROS_def zdiv_mono1)

section \<open>Issuing and validating tokens\<close>

text \<open>
  Claim C1, as amended. A token issued with the default lifetime for claims that hold a
  subject string \<open>S\<close> and an integer user id, and none of the registered claims
  \<^verbatim>\<open>iat\<close>, \<^verbatim>\<open>nbf\<close>, \<^verbatim>\<open>aud\<close>, \<^verbatim>\<open>jti\<close>, \<^verbatim>\<open>at_hash\<close>, is returned by
  \<^verbatim>\<open>create_access_token\<close>, and \<^verbatim>\<open>decode_access_token\<close> at the same instant returns
  token data with the email \<open>S\<close> and that user id. The configured algorithm is of the
  HMAC family, the default lifetime is not negative and the expiry is a representable
  \<^verbatim>\<open>datetime\<close>.
\<close>

theorem issue_then_decode:
  assumes "ALGORITHM cfg \<in> set HMAC_ALGORITHMS"
    and "0 \<le> ACCESS_TOKEN_EXPIRE_MINUTES cfg"
    and "DATETIME_MIN \<le> now"
    and "now + ACCESS_TOKEN_EXPIRE_MINUTES cfg * 60 * MICROS \<le> DATETIME_MAX"
    and "map_of data ''sub'' = Some (PStr S)"
    and "map_of data ''user_id'' = Some (PInt n)"
    and "list_all json_serializable (map snd data)"
    and "\<not> dict_has data ''iat''" and "\<not> dict_has data ''nbf''"
    and "\<not> dict_has data ''aud''" and "\<not> dict_has data ''jti''"
    and "\<not> dict_has data ''at_hash''"
  shows "\<exists>tok. create_access_token cfg now data None = Inr tok \<and>
           decode_access_token cfg now tok = Inr (Some \<lparr>email = Some S, user_id = Some n\<rparr>)"
proof -
  let ?e = "now + ACCESS_TOKEN_EXPIRE_MINUTES cfg * 60 * MICROS"
  have x: "token_expire cfg now None = Inr ?e"
    using assms(3,2,4) by (rule token_expire_default)
  have c: "create_access_token cfg now data None =
        Inr (JWS (Some (ALGORITHM cfg)) (Some (PDict (dict_set data ''exp'' (PInt (timegm ?e)))))
               (Some (SECRET_KEY cfg)))"
    using assms(1) x assms(7,8,9) by (rule create_issued)
  have "now \<le> ?e" using assms(2) by (simp add: MICROS_def)
  then have "\<not> timegm ?e < timegm now"
    using timegm_mono by (simp add: not_less)
  then show ?thesis
    using c decode_issued[OF assms(1,5,6,8,9,10,11,12), where e = "timegm ?e" and now = now] by simp
qed

text \<open>The amended claim C1 at the default configuration, for one subject.\<close>

theorem issue_then_decode_witness:
  "\<exists>tok. create_access_token default_config 0
            [(''sub'', PStr ''u@example.com''), (''user_id'', PInt 1)] None = Inr tok \<and>
         decode_access_token default_config 0 tok =
           Inr (Some \<lparr>email = Some ''u@example.com'', user_id = Some 1\<rparr>)"
  using issue_then_decode[of default_config 0
      "[(''sub'', PStr ''u@example.com''), (''user_id'', PInt 1)]" "''u@example.com''" 1]
  by (simp add: default_config_def HMAC_ALGORITHMS_def DATETIME_MIN_def DATETIME_MAX_def
      MICROS_def dict_has_def)

text \<open>
  Claim C1 as stated fails: a token whose claims hold the subject only is issued, and
  \<^verbatim>\<open>decode_access_token\<close> returns \<^verbatim>\<open>None\<close> for it at the instant of issuance.
\<close>

theorem subject_only_token_counterexample:
  "create_access_token default_config 0 [(''sub'', PStr ''u@example.com'')] None =
     Inr (JWS (Some ''HS256'')
            (Some (PDict [(''sub'', PStr ''u@example.com''), (''exp'', PInt 3600)]))
            (Some ''your-secret-key-change-in-production'')) \<and>
   decode_access_token default_config 0
     (JWS (Some ''HS256'')
        (Some (PDict [(''sub'', PStr ''u@example.com''), (''exp'', PInt 3600)]))
        (Some ''your-secret-key-change-in-production'')) = Inr None"
  by (simp add: create_access_token_def token_claims_def token_expire_def truthy_def
      timedelta_minutes_def datetime_add_def default_config_def jwt_encode_def jws_sign_def
      convert_time_claim_def dict_get_def timegm_def HMAC_ALGORITHMS_def MICROS_def
      DATETIME_MIN_def DATETIME_MAX_def TIMEDELTA_MIN_def TIMEDELTA_MAX_def
      decode_access_token_def jwt_decode_def validate_claims_def validate_iat_def
      validate_nbf_def validate_exp_def validate_aud_def validate_sub_def validate_jti_def
      validate_at_hash_def dict_has_def claim_int_def is_str_def)

text \<open>
  Claim C5, as amended. A token issued at \<open>issued\<close> with a non-zero lifetime \<open>ttl\<close>
  carries as expiry the whole seconds of \<open>issued + ttl\<close>. \<^verbatim>\<open>decode_access_token\<close>
  rejects it exactly when the whole seconds of the current time are strictly greater than
  that expiry: the token is still accepted during the whole second of its expiry, and
  there is no further allowance.
\<close>

theorem expiry_boundary:
  assumes "ALGORITHM cfg \<in> set HMAC_ALGORITHMS"
    and "ttl \<noteq> 0"
    and "DATETIME_MIN \<le> issued + ttl" and "issued + ttl \<le> DATETIME_MAX"
    and "map_of data ''sub'' = Some (PStr S)"
    and "map_of data ''user_id'' = Some (PInt n)"
    and "list_all json_serializable (map snd data)"
    and "\<not> dict_has data ''iat''" and "\<not> dict_has data ''nbf''"
    and "\<not> dict_has data ''aud''" and "\<not> dict_has data ''jti''"
    and "\<not> dict_has data ''at_hash''"
  shows "create_access_token cfg issued data (Some ttl) =
           Inr (JWS (Some (ALGORITHM cfg))
                  (Some (PDict (dict_set data ''exp'' (PInt (timegm (issued + ttl))))))
                  (Some (SECRET_KEY cfg))) \<and>
         decode_access_token cfg now
           (JWS (Some (ALGORITHM cfg))
              (Some (PDict (dict_set data ''exp'' (PInt (timegm (issued + ttl))))))
              (Some (SECRET_KEY cfg))) =
           (if timegm (issued + ttl) < timegm now then Inr None
            else Inr (Some \<lparr>email = Some S, user_id = Some n\<rparr>))"
proof -
  have x: "token_expire cfg issued (Some ttl) = Inr (issued + ttl)"
    using assms(2,3,4) by (rule token_expire_supplied)
  have c: "create_access_token cfg issued data (Some ttl) =
        Inr (JWS (Some (ALGORITHM cfg))
               (Some (PDict (dict_set data ''exp'' (PInt (timegm (issued + ttl))))))
               (Some (SECRET_KEY cfg)))"
    using assms(1) x assms(7,8,9) by (rule create_issued)
  show ?thesis
    using c decode_issued[OF assms(1,5,6,8,9,10,11,12), where e = "timegm (issued + ttl)"]
    by simp
qed

text \<open>
  The amended claim C5 for a token issued at time 0 with a lifetime of one second: it is
  accepted 1.999999 seconds after issuance and rejected 2 seconds after issuance.
\<close>

theorem expiry_boundary_witness:
  "decode_access_token default_config 1999999
     (JWS (Some ''HS256'')
        (Some (PDict [(''sub'', PStr ''u@example.com''), (''user_id'', PInt 1), (''exp'', PInt 1)]))
        (Some ''your-secret-key-change-in-production'')) =
     Inr (Some \<lparr>email = Some ''u@example.com'', user_id = Some 1\<rparr>) \<and>
   decode_access_token default_config 2000000
     (JWS (Some ''HS256'')
        (Some (PDict [(''sub'', PStr ''u@example.com''), (''user_id'', PInt 1), (''exp'', PInt 1)]))
        (Some ''your-secret-key-change-in-production'')) = Inr None"
  using
    expiry_boundary[where cfg = default_config and issued = 0 and ttl = 1000000
      and data = "[(''sub'', PStr ''u@example.com''), (''user_id'', PInt 1)]"
      and S = "''u@example.com''" and n = 1 and now = 1999999]
    expiry_boundary[where cfg = default_config and issued = 0 and ttl = 1000000
      and data = "[(''sub'', PStr ''u@example.com''), (''user_id'', PInt 1)]"
      and S = "''u@example.com''" and n = 1 and now = 2000000]
  by (simp add: default_config_def HMAC_ALGORITHMS_def DATETIME_MIN_def DATETIME_MAX_def
      MICROS_def dict_has_def timegm_def)

text \<open>
  Claim C5 as stated fails: the token issued at time 0 with a lifetime of one second is
  still accepted when the current time is the time of issuance plus one second.
\<close>

theorem valid_at_expiry_counterexample:
  "create_access_token default_config 0
     [(''sub'', PStr ''u@example.com''), (''user_id'', PInt 1)] (Some 1000000) =
     Inr (JWS (Some ''HS256'')
            (Some (PDict [(''sub'', PStr ''u@example.com''), (''user_id'', PInt 1),
                          (''exp'', PInt 1)]))
            (Some ''your-secret-key-change-in-production'')) \<and>
   decode_access_token default_config 1000000
     (JWS (Some ''HS256'')
        (Some (PDict [(''sub'', PStr ''u@example.com''), (''user_id'', PInt 1), (''exp'', PInt 1)]))
        (Some ''your-secret-key-change-in-production'')) =
     Inr (Some \<lparr>email = Some ''u@example.com'', user_id = Some 1\<rparr>)"
  by (simp add: create_access_token_def token_claims_def token_expire_def truthy_def
      datetime_add_def default_config_def jwt_encode_def jws_sign_def
      convert_time_claim_def dict_get_def timegm_def HMAC_ALGORITHMS_def MICROS_def
      DATETIME_MIN_def DATETIME_MAX_def
      decode_access_token_def jwt_decode_def validate_claims_def validate_iat_def
      validate_nbf_def validate_exp_def validate_aud_def validate_sub_def validate_jti_def
      validate_at_hash_def dict_has_def claim_int_def is_str_def TokenData_new_def
      optional_def int_validator_def)

text \<open>
  Claim C6 at a supplied lifetime of zero: \<^verbatim>\<open>timedelta(0)\<close> is false in the test
  \<^verbatim>\<open>if expires_delta:\<close>, so the expiry handed to the encoder is the current time plus the
  default 3600 seconds, not the current time plus the supplied duration.
\<close>

theorem zero_delta_gets_default_lifetime:
  "token_claims default_config 0
     [(''sub'', PStr ''u@example.com''), (''user_id'', PInt 1)] (Some 0) =
     Inr [(''sub'', PStr ''u@example.com''), (''user_id'', PInt 1),
          (''exp'', PDatetime 3600000000)] \<and>
   create_access_token default_config 0
     [(''sub'', PStr ''u@example.com''), (''user_id'', PInt 1)] (Some 0) =
     Inr (JWS (Some ''HS256'')
            (Some (PDict [(''sub'', PStr ''u@example.com''), (''user_id'', PInt 1),
                          (''exp'', PInt 3600)]))
            (Some ''your-secret-key-change-in-production''))"
  by (simp add: create_access_token_def token_claims_def token_expire_def truthy_def
      timedelta_minutes_def datetime_add_def default_config_def jwt_encode_def jws_sign_def
      convert_time_claim_def dict_get_def timegm_def HMAC_ALGORITHMS_def MICROS_def
      DATETIME_MIN_def DATETIME_MAX_def TIMEDELTA_MIN_def TIMEDELTA_MAX_def)





section \<open>Authentication\<close>

text \<open>
  Claim C8 at a password of 4097 characters, which the login schema admits. For the
  email of a stored user the hashing library refuses the password and
  \<^verbatim>\<open>authenticate_user\<close> raises; for an email that no row has, the same password gives
  \<^verbatim>\<open>None\<close>. The two outcomes differ, so the outcome tells whether the identity is known.
\<close>

theorem oversized_password_reveals_known_identity:
  "authenticate_user
     [\<lparr>User_id = 1, User_email = ''u@example.com'',
       hashed_password = Bcrypt 12 ''c2FsdHNhbHRzYWx0c2FsdA''
         (Digest 12 ''c2FsdHNhbHRzYWx0c2FsdA'' ''right-password''),
       full_name = None, is_active = True\<rparr>]
     \<lparr>login_email = ''u@example.com'', login_password = replicate 4097 CHR ''a''\<rparr> =
     Inl PasswordSizeError \<and>
   authenticate_user
     [\<lparr>User_id = 1, User_email = ''u@example.com'',
       hashed_password = Bcrypt 12 ''c2FsdHNhbHRzYWx0c2FsdA''
         (Digest 12 ''c2FsdHNhbHRzYWx0c2FsdA'' ''right-password''),
       full_name = None, is_active = True\<rparr>]
     \<lparr>login_email = ''nobody@example.com'', login_password = replicate 4097 CHR ''a''\<rparr> =
     Inr None"
  by (simp add: authenticate_user_def query_user_by_email_def verify_password_def
      pwd_context_verify_def MAX_PASSWORD_SIZE_def)

text \<open>
  The failures that do share one outcome: \<^verbatim>\<open>authenticate_user\<close> returns \<^verbatim>\<open>None\<close> when no
  row has the email of the credentials, and the same \<^verbatim>\<open>None\<close> when a row has it and
  \<^verbatim>\<open>verify_password\<close> returns false.
\<close>

lemma authenticate_user_returns_none:
  "(query_user_by_email db (login_email credentials) = None \<longrightarrow>
      authenticate_user db credentials = Inr None) \<and>
   (query_user_by_email db (login_email credentials) = Some user \<and>
    verify_password (login_password credentials) (hashed_password user) = Inr False \<longrightarrow>
      authenticate_user db credentials = Inr None)"
  by (simp add: authenticate_user_def)

text \<open>
  Every exception of \<^verbatim>\<open>verify_password\<close> leaves \<^verbatim>\<open>authenticate_user\<close>, and only for an
  email that a row has.
\<close>

lemma authenticate_user_raises:
  "authenticate_user db credentials = Inl e \<longleftrightarrow>
     (\<exists>user. query_user_by_email db (login_email credentials) = Some user \<and>
        verify_password (login_password credentials) (hashed_password user) = Inl e)"
  by (auto simp: authenticate_user_def split: option.splits sum.splits)

section \<open>Hashing and verifying passwords\<close>



text \<open>
  The salt that a call of \<^verbatim>\<open>get_password_hash\<close> draws is the argument \<open>salt\<close>; which
  salts two calls draw is not a matter of these definitions. The salt is part of the
  hash: two calls on the same password that return, return the same hash exactly when
  they drew the same salt.
\<close>

lemma salt_decides_hash:
  assumes "get_password_hash salt1 P = Inr h1"
    and "get_password_hash salt2 P = Inr h2"
  shows "h1 = h2 \<longleftrightarrow> salt1 = salt2"
  using assms
  by (auto simp: get_password_hash_def pwd_context_hash_def bcrypt_digest_def split: if_splits)

text \<open>
  Claim C3, as amended. \<^verbatim>\<open>verify_password\<close> has no handler of its own. On a string that
  no scheme of the context identifies it raises \<^verbatim>\<open>UnknownHashError\<close>; on a string that
  starts as a bcrypt hash and does not parse it raises as well; on a well-formed bcrypt
  hash, for a password of at most 4096 characters without a NUL character, it returns
  whether the digest of the password is the digest of the hash.
\<close>

theorem verify_password_on_hash_strings:
  "verify_password p (Unidentified s) = Inl UnknownHashError \<and>
   verify_password p (MalformedBcrypt s) =
     Inl (if length p > MAX_PASSWORD_SIZE then PasswordSizeError else MalformedHashError) \<and>
   (length p \<le> MAX_PASSWORD_SIZE \<and> NUL \<notin> set p \<longrightarrow>
      verify_password p (Bcrypt rounds salt chk) = Inr (Digest rounds salt (take 72 p) = chk))"
  by (simp add: verify_password_def pwd_context_verify_def bcrypt_digest_def)

text \<open>
  The amended claim C3 for a wrong password against a well-formed hash, and for a
  truncated bcrypt hash.
\<close>

theorem verify_password_on_hash_strings_witness:
  "verify_password ''wrongpassword''
     (Bcrypt 12 ''c2FsdHNhbHRzYWx0c2FsdA''
        (Digest 12 ''c2FsdHNhbHRzYWx0c2FsdA'' ''securepassword123'')) = Inr False \<and>
   verify_password ''securepassword123'' (MalformedBcrypt ''$2b$12$short'') =
     Inl MalformedHashError"
  using verify_password_on_hash_strings[where p = "''wrongpassword''" and rounds = 12
      and salt = "''c2FsdHNhbHRzYWx0c2FsdA''"
      and chk = "Digest 12 ''c2FsdHNhbHRzYWx0c2FsdA'' ''securepassword123''"]
    verify_password_on_hash_strings[where p = "''securepassword123''"
      and s = "''$2b$12$short''"]
  by (simp add: MAX_PASSWORD_SIZE_def NUL_def)

text \<open>
  Claim C3 as stated fails: on a string that is not a hash, \<^verbatim>\<open>verify_password\<close> raises
  instead of returning false.
\<close>

theorem verify_password_raises_counterexample:
  "verify_password ''securepassword123'' (Unidentified ''not-a-hash'') = Inl UnknownHashError"
  by (simp add: verify_password_def pwd_context_verify_def)

text \<open>
  Claim C7, as amended. The schema \<^verbatim>\<open>UserCreate\<close> refuses a password of fewer than 8 or
  more than 100 characters with a validation error, so that a \<^verbatim>\<open>UserCreate\<close> object holds
  a password within these bounds before anything is hashed. \<^verbatim>\<open>get_password_hash\<close> itself
  refuses a password of more than 4096 characters and has no lower bound.
\<close>

theorem password_rejection:
  "(length p < 8 \<or> 100 < length p \<longrightarrow>
      UserCreate_new validate_email e n p = Inl ValidationError) \<and>
   (UserCreate_new validate_email e n p = Inr u \<longrightarrow>
      create_password u = p \<and> 8 \<le> length p \<and> length p \<le> 100) \<and>
   (MAX_PASSWORD_SIZE < length p \<longrightarrow> get_password_hash salt p = Inl PasswordSizeError)"
  by (auto simp: UserCreate_new_def password_strength_def get_password_hash_def
      pwd_context_hash_def split: option.splits if_splits)

text \<open>
  The amended claim C7 for the empty password, a short one, one of 101 characters, and
  one of 4097 characters.
\<close>

theorem password_rejection_witness:
  "UserCreate_new Some ''u@example.com'' (Some ''John Doe'') '''' = Inl ValidationError \<and>
   UserCreate_new Some ''u@example.com'' (Some ''John Doe'') ''short'' = Inl ValidationError \<and>
   UserCreate_new Some ''u@example.com'' (Some ''John Doe'') (replicate 101 CHR ''a'') =
     Inl ValidationError \<and>
   get_password_hash ''c2FsdHNhbHRzYWx0c2FsdA'' (replicate 4097 CHR ''a'') =
     Inl PasswordSizeError \<and>
   UserCreate_new Some ''u@example.com'' (Some ''John Doe'') ''securepassword123'' =
     Inr \<lparr>create_email = ''u@example.com'', create_full_name = Some ''John Doe'',
          create_password = ''securepassword123''\<rparr> \<and>
   8 \<le> length ''securepassword123'' \<and> length ''securepassword123'' \<le> 100"
  using password_rejection[where p = "''securepassword123''" and validate_email = Some
      and e = "''u@example.com''" and n = "Some ''John Doe''"
      and u = "\<lparr>create_email = ''u@example.com'', create_full_name = Some ''John Doe'',
                create_password = ''securepassword123''\<rparr>"]
    password_rejection[where p = "''''" and validate_email = Some
      and e = "''u@example.com''" and n = "Some ''John Doe''"]
    password_rejection[where p = "''short''" and validate_email = Some
      and e = "''u@example.com''" and n = "Some ''John Doe''"]
    password_rejection[where p = "replicate 101 CHR ''a''" and validate_email = Some
      and e = "''u@example.com''" and n = "Some ''John Doe''"]
    password_rejection[where p = "replicate 4097 CHR ''a''"
      and salt = "''c2FsdHNhbHRzYWx0c2FsdA''"]
  by (simp add: MAX_PASSWORD_SIZE_def UserCreate_new_def full_name_ok_def
      password_strength_def)

text \<open>
  Claim C7 as stated fails: \<^verbatim>\<open>get_password_hash\<close> produces a hash for the empty password.
\<close>

theorem empty_password_is_hashed_counterexample:
  "get_password_hash ''c2FsdHNhbHRzYWx0c2FsdA'' '''' =
     Inr (Bcrypt 12 ''c2FsdHNhbHRzYWx0c2FsdA'' (Digest 12 ''c2FsdHNhbHRzYWx0c2FsdA'' ''''))"
  by (simp add: get_password_hash_def pwd_context_hash_def bcrypt_digest_def
      MAX_PASSWORD_SIZE_def DEFAULT_ROUNDS_def NUL_def)

section \<open>Tokens that are refused\<close>

text \<open>
  Claim C4 at a correctly signed token whose \<^verbatim>\<open>user_id\<close> is not an integer: the token is
  issued by \<^verbatim>\<open>create_access_token\<close>, and \<^verbatim>\<open>decode_access_token\<close> neither returns token
  data nor \<^verbatim>\<open>None\<close> for it: the validation error of \<^verbatim>\<open>TokenData\<close> is no \<^verbatim>\<open>JWTError\<close>
  and leaves the call.
\<close>

theorem non_integer_user_id_raises:
  "create_access_token default_config 0
     [(''sub'', PStr ''u@example.com''), (''user_id'', PStr ''abc'')] None =
     Inr (JWS (Some ''HS256'')
            (Some (PDict [(''sub'', PStr ''u@example.com''), (''user_id'', PStr ''abc''),
                          (''exp'', PInt 3600)]))
            (Some ''your-secret-key-change-in-production'')) \<and>
   decode_access_token default_config 0
     (JWS (Some ''HS256'')
        (Some (PDict [(''sub'', PStr ''u@example.com''), (''user_id'', PStr ''abc''),
                      (''exp'', PInt 3600)]))
        (Some ''your-secret-key-change-in-production'')) = Inl ValidationError"
  by (simp add: create_access_token_def token_claims_def token_expire_def truthy_def
      timedelta_minutes_def datetime_add_def default_config_def jwt_encode_def jws_sign_def
      convert_time_claim_def dict_get_def timegm_def HMAC_ALGORITHMS_def MICROS_def
      DATETIME_MIN_def DATETIME_MAX_def TIMEDELTA_MIN_def TIMEDELTA_MAX_def
      decode_access_token_def jwt_decode_def validate_claims_def validate_iat_def
      validate_nbf_def validate_exp_def validate_aud_def validate_sub_def validate_jti_def
      validate_at_hash_def dict_has_def claim_int_def is_str_def TokenData_new_def
      optional_def int_validator_def int_of_str_def strip_def is_space_def is_digit_def)

text \<open>
  The refusals that do collapse to \<^verbatim>\<open>None\<close>, under an HMAC algorithm: a string that is
  no token (the empty string among them), a token that the configured secret did not
  sign, and every token for which the library raises a \<^verbatim>\<open>JWTError\<close>, an expired one
  among them.
\<close>

lemma decode_failures_collapse:
  assumes "ALGORITHM cfg \<in> set HMAC_ALGORITHMS"
  shows "decode_access_token cfg now (NotJWS s) = Inr None"
    and "signer \<noteq> Some (SECRET_KEY cfg) \<Longrightarrow> decode_access_token cfg now (JWS a p signer) = Inr None"
    and "jwt_decode tok (SECRET_KEY cfg) [ALGORITHM cfg] now = Inl e \<Longrightarrow> is_JWTError e \<Longrightarrow>
         decode_access_token cfg now tok = Inr None"
  using assms
  by (auto simp: decode_access_token_def jwt_decode_def split: option.splits)

end
